theory Spec2Isabelle
  imports Complex_Main
begin

section \<open>Data model (models.py, database.py)\<close>

text \<open>
  Rows of the tables the attendance logic reads and writes. Primary keys and foreign
  keys are natural numbers. A calendar date is its proleptic ordinal (an integer), so
  that the comparison of two \<^verbatim>\<open>date\<close> objects in services.py and the comparison of two
  ISO strings \<^verbatim>\<open>YYYY-MM-DD\<close> in the SQL of app.py are both the order of \<^typ>\<open>int\<close>.
  The status column is the string the code stores. Columns no attendance code reads
  (password hash, timestamps, remarks, the surrogate row id of an attendance row) are
  left out.

  Python computes percentages in binary floating point; here they are exact rationals.
  The two agree on whether a percentage is 0 and on every comparison with 75 for any
  number of classes below ten to the fourteenth. They need not agree on a comparison
  with another threshold: 29 Present of 50 is exactly 58 here and 57.99999999999999 in
  floating point, which is below a threshold of 58. What is said below about a
  percentage that equals the threshold is said about the exact value.
\<close>

record User =
  User_id :: nat
  User_email :: string
  User_full_name :: string
  User_role :: string
  User_is_active :: bool

record Course =
  Course_id :: nat
  Course_name :: string

record Attendance =
  Attendance_student_user_id :: nat
  Attendance_course_id :: nat
  Attendance_date :: int
  Attendance_status :: string

text \<open>
  The message of a notification is an f-string built from the course name, the
  percentage and the threshold; the record keeps the three interpolated values.
\<close>

record Notification =
  Notification_user_id :: nat
  Notification_title :: string
  Notification_message :: "string \<times> rat \<times> rat"
  Notification_type :: string

text \<open>The columns of the constraint \<^verbatim>\<open>UNIQUE(student_user_id, course_id, date)\<close>.\<close>

definition unique_attendance :: "Attendance \<Rightarrow> nat \<times> nat \<times> int" where
  "unique_attendance a =
     (Attendance_student_user_id a, Attendance_course_id a, Attendance_date a)"

datatype error = IntegrityError | IndexError | ValueError | OperationalError

section \<open>Aggregation (models.py)\<close>

text \<open>
  \<^verbatim>\<open>if start_date: query = query.filter(Attendance.date >= start_date)\<close>: a date
  object is always truthy, so the bound is applied exactly when it is given.
\<close>

definition filter_dates :: "int option \<Rightarrow> int option \<Rightarrow> Attendance list \<Rightarrow> Attendance list" where
  "filter_dates start_date end_date query =
     (let query = (case start_date of None \<Rightarrow> query
                   | Some s \<Rightarrow> filter (\<lambda>a. Attendance_date a \<ge> s) query);
          query = (case end_date of None \<Rightarrow> query
                   | Some e \<Rightarrow> filter (\<lambda>a. Attendance_date a \<le> e) query)
      in query)"

text \<open>The query of \<^verbatim>\<open>User.get_attendance_percentage\<close> before it is counted.\<close>

definition percentage_query ::
  "Attendance list \<Rightarrow> User \<Rightarrow> nat \<Rightarrow> int option \<Rightarrow> int option \<Rightarrow> Attendance list" where
  "percentage_query tbl self course_id start_date end_date =
     filter_dates start_date end_date
       (filter (\<lambda>a. Attendance_student_user_id a = User_id self
                    \<and> Attendance_course_id a = course_id) tbl)"

definition total_classes ::
  "Attendance list \<Rightarrow> User \<Rightarrow> nat \<Rightarrow> int option \<Rightarrow> int option \<Rightarrow> nat" where
  "total_classes tbl self course_id start_date end_date =
     length (percentage_query tbl self course_id start_date end_date)"

definition present_classes ::
  "Attendance list \<Rightarrow> User \<Rightarrow> nat \<Rightarrow> int option \<Rightarrow> int option \<Rightarrow> nat" where
  "present_classes tbl self course_id start_date end_date =
     length (filter (\<lambda>a. Attendance_status a = ''Present'')
               (percentage_query tbl self course_id start_date end_date))"

definition get_attendance_percentage ::
  "Attendance list \<Rightarrow> User \<Rightarrow> nat \<Rightarrow> int option \<Rightarrow> int option \<Rightarrow> rat" where
  "get_attendance_percentage tbl self course_id start_date end_date =
     (if total_classes tbl self course_id start_date end_date = 0 then 0
      else (of_nat (present_classes tbl self course_id start_date end_date)
             / of_nat (total_classes tbl self course_id start_date end_date)) * 100)"

record summary =
  total_records :: int
  present_records :: int
  absent_records :: int
  attendance_rate :: rat

text \<open>The dictionary both summary functions build from a filtered query.\<close>

definition summary_of :: "Attendance list \<Rightarrow> summary" where
  "summary_of query =
     (let total = int (length query);
          present = int (length (filter (\<lambda>a. Attendance_status a = ''Present'') query));
          absent = total - present
      in \<lparr> total_records = total, present_records = present, absent_records = absent,
           attendance_rate = (if total > 0 then of_int present / of_int total * 100 else 0) \<rparr>)"

text \<open>\<^verbatim>\<open>Course.get_attendance_summary(self, start_date, end_date)\<close>.\<close>

definition Course_get_attendance_summary ::
  "Attendance list \<Rightarrow> Course \<Rightarrow> int option \<Rightarrow> int option \<Rightarrow> summary" where
  "Course_get_attendance_summary tbl self start_date end_date =
     summary_of (filter_dates start_date end_date
                   (filter (\<lambda>a. Attendance_course_id a = Course_id self) tbl))"

text \<open>
  \<^verbatim>\<open>ReportService.get_attendance_summary(course_id, start_date, end_date)\<close>. The
  course filter is applied when \<^verbatim>\<open>course_id\<close> is truthy: given and not 0. The body runs
  inside \<^verbatim>\<open>try\<close>; when the store raises, the function logs and returns \<^verbatim>\<open>None\<close>.
\<close>

definition ReportService_get_attendance_summary ::
  "bool \<Rightarrow> Attendance list \<Rightarrow> nat option \<Rightarrow> int option \<Rightarrow> int option \<Rightarrow> summary option" where
  "ReportService_get_attendance_summary query_fails tbl course_id start_date end_date =
     (if query_fails then None
      else Some (summary_of (filter_dates start_date end_date
             (case course_id of None \<Rightarrow> tbl
              | Some c \<Rightarrow> if c = 0 then tbl
                          else filter (\<lambda>a. Attendance_course_id a = c) tbl))))"

section \<open>Configuration, the outside world and the store\<close>

text \<open>
  \<^verbatim>\<open>config.py\<close> is not part of the sources at hand, so the values the alerting code
  reads from \<^verbatim>\<open>Config\<close> are parameters. A credential is absent (\<^verbatim>\<open>None\<close>) or a string.
\<close>

record Config =
  MAIL_USERNAME :: "string option"
  MAIL_PASSWORD :: "string option"
  ATTENDANCE_THRESHOLD :: rat
  ALERT_PERIOD_DAYS :: int

text \<open>Python truthiness of an optional string: \<^verbatim>\<open>None\<close> and the empty string are falsy.\<close>

definition truthy :: "string option \<Rightarrow> bool" where
  "truthy s = (case s of None \<Rightarrow> False | Some v \<Rightarrow> v \<noteq> [])"

text \<open>The arguments of one call of \<^verbatim>\<open>send_attendance_alert\<close>.\<close>

record email_call =
  student_email :: string
  student_name :: string
  course_name :: string
  percentage :: rat

text \<open>
  The state the routes and services act on: the four tables, the calls of
  \<^verbatim>\<open>send_attendance_alert\<close> made so far (each with whether the mail went out), and the
  lines written to the logger. The SMTP exchange is outside the program: a function
  \<open>smtp\<close> says for each call whether it succeeds or raises.
\<close>

record world =
  users :: "User list"
  courses :: "Course list"
  attendance :: "Attendance list"
  notifications :: "Notification list"
  outbox :: "(email_call \<times> bool) list"
  log_lines :: "string list"

text \<open>
  Failures of the store: a query that raises (the store is unavailable when the
  operation starts reading) and a commit that raises.
\<close>

record store_faults =
  query_fails :: bool
  commit_fails :: bool

section \<open>Alerting in services.py\<close>

text \<open>
  \<^verbatim>\<open>EmailService.send_attendance_alert\<close>: \<^verbatim>\<open>False\<close> without credentials, \<^verbatim>\<open>False\<close> when
  the SMTP exchange raises, \<^verbatim>\<open>True\<close> otherwise.
\<close>

definition EmailService_send_attendance_alert ::
  "Config \<Rightarrow> (email_call \<Rightarrow> bool) \<Rightarrow> email_call \<Rightarrow> bool" where
  "EmailService_send_attendance_alert cfg smtp call =
     (if \<not> truthy (MAIL_USERNAME cfg) \<or> \<not> truthy (MAIL_PASSWORD cfg) then False
      else smtp call)"

text \<open>
  The body of \<^verbatim>\<open>for student in students\<close>. \<^verbatim>\<open>db.session.add\<close> appends to the
  notifications; a rollback (below) takes the additions of the pass away again.
\<close>

definition AttendanceService_alert_student ::
  "Config \<Rightarrow> (email_call \<Rightarrow> bool) \<Rightarrow> Course \<Rightarrow> int \<Rightarrow> int \<Rightarrow> User \<Rightarrow> world \<Rightarrow> world" where
  "AttendanceService_alert_student cfg smtp course start_date end_date student w =
     (let pct = get_attendance_percentage (attendance w) student (Course_id course)
                  (Some start_date) (Some end_date)
      in if pct < ATTENDANCE_THRESHOLD cfg \<and> pct > 0 then
           let call = \<lparr> student_email = User_email student,
                        student_name = User_full_name student,
                        course_name = Course_name course, percentage = pct \<rparr>;
               email_sent = EmailService_send_attendance_alert cfg smtp call;
               notification = \<lparr> Notification_user_id = User_id student,
                   Notification_title = ''Low Attendance Alert'',
                   Notification_message = (Course_name course, pct, ATTENDANCE_THRESHOLD cfg),
                   Notification_type = ''attendance_alert'' \<rparr>
           in w\<lparr> outbox := outbox w @ [(call, email_sent)],
                 notifications := notifications w @ [notification] \<rparr>
         else w)"

text \<open>
  \<^verbatim>\<open>if not start_date or not end_date\<close>: without both bounds the window is the
  \<^verbatim>\<open>ALERT_PERIOD_DAYS\<close> days that end today.
\<close>

definition alert_window :: "Config \<Rightarrow> int \<Rightarrow> int option \<Rightarrow> int option \<Rightarrow> int \<times> int" where
  "alert_window cfg today start_date end_date =
     (case (start_date, end_date) of
        (Some s, Some e) \<Rightarrow> (s, e)
      | _ \<Rightarrow> (today - ALERT_PERIOD_DAYS cfg, today))"

text \<open>
  The \<^verbatim>\<open>try\<close> block of \<^verbatim>\<open>AttendanceService.check_and_send_alerts\<close>: \<open>Inl\<close> is the
  exception that leaves the block, with the state reached by then.
  \<^verbatim>\<open>Course.query.get\<close> is the first read of the store.
\<close>

definition check_and_send_alerts_try ::
  "Config \<Rightarrow> store_faults \<Rightarrow> (email_call \<Rightarrow> bool) \<Rightarrow> int \<Rightarrow> nat \<Rightarrow> int option \<Rightarrow> int option
     \<Rightarrow> world \<Rightarrow> (error \<times> world) + world" where
  "check_and_send_alerts_try cfg faults smtp today course_id start_date end_date w =
     (if query_fails faults then Inl (OperationalError, w)
      else case find (\<lambda>c. Course_id c = course_id) (courses w) of
        None \<Rightarrow> Inr w
      | Some course \<Rightarrow>
          let (start_date, end_date) = alert_window cfg today start_date end_date;
              students = filter (\<lambda>u. User_role u = ''student'' \<and> User_is_active u) (users w);
              w' = fold (AttendanceService_alert_student cfg smtp course start_date end_date)
                     students w
          in if commit_fails faults then Inl (OperationalError, w')
             else Inr (w'\<lparr> log_lines := log_lines w' @ [''Attendance alerts processed''] \<rparr>))"

text \<open>
  The whole function: what it returns to its caller (\<open>Inr ()\<close> is Python's \<^verbatim>\<open>None\<close>)
  and the state it leaves. The handler logs the error and rolls the session back: the
  notifications added in the pass are gone, the mails already sent are not.
\<close>

definition AttendanceService_check_and_send_alerts ::
  "Config \<Rightarrow> store_faults \<Rightarrow> (email_call \<Rightarrow> bool) \<Rightarrow> int \<Rightarrow> nat \<Rightarrow> int option \<Rightarrow> int option
     \<Rightarrow> world \<Rightarrow> (error + unit) \<times> world" where
  "AttendanceService_check_and_send_alerts cfg faults smtp today course_id start_date end_date w =
     (case check_and_send_alerts_try cfg faults smtp today course_id start_date end_date w of
        Inr w' \<Rightarrow> (Inr (), w')
      | Inl (e, w') \<Rightarrow>
          (Inr (), w'\<lparr> notifications := notifications w,
                       log_lines := log_lines w' @ [''Error processing attendance alerts''] \<rparr>))"

section \<open>Alerting in app.py\<close>

text \<open>The dates \<^verbatim>\<open>2025-07-25\<close> and \<^verbatim>\<open>2025-08-08\<close> as ordinals.\<close>

definition PERIOD_START_DATE :: int where
  "PERIOD_START_DATE = 739457"

definition PERIOD_END_DATE :: int where
  "PERIOD_END_DATE = 739471"

text \<open>
  \<^verbatim>\<open>send_attendance_alert\<close> of app.py: it tries the SMTP exchange, prints the outcome
  and returns nothing.
\<close>

definition send_attendance_alert :: "(email_call \<Rightarrow> bool) \<Rightarrow> email_call \<Rightarrow> world \<Rightarrow> world" where
  "send_attendance_alert smtp call w = w\<lparr> outbox := outbox w @ [(call, smtp call)] \<rparr>"

text \<open>The \<^verbatim>\<open>stats_query\<close>: \<^verbatim>\<open>COUNT(*)\<close> and the sum of the \<^verbatim>\<open>CASE\<close> over the window.\<close>

definition stats_query :: "Attendance list \<Rightarrow> nat \<Rightarrow> nat \<Rightarrow> nat \<times> nat" where
  "stats_query tbl student_id course_id =
     (let rows = filter (\<lambda>a. Attendance_student_user_id a = student_id
                           \<and> Attendance_course_id a = course_id
                           \<and> PERIOD_START_DATE \<le> Attendance_date a
                           \<and> Attendance_date a \<le> PERIOD_END_DATE) tbl
      in (length rows, length (filter (\<lambda>a. Attendance_status a = ''Present'') rows)))"

definition app_alert_student ::
  "(email_call \<Rightarrow> bool) \<Rightarrow> Course \<Rightarrow> User \<Rightarrow> world \<Rightarrow> world" where
  "app_alert_student smtp course student w =
     (let (total, present) = stats_query (attendance w) (User_id student) (Course_id course)
      in if total > 0 then
           let pct = (of_nat present / of_nat total) * (100 :: rat)
           in if pct < 75 then
                send_attendance_alert smtp
                  \<lparr> student_email = User_email student, student_name = User_full_name student,
                    course_name = Course_name course, percentage = pct \<rparr> w
              else w
         else w)"

definition check_and_send_alerts :: "(email_call \<Rightarrow> bool) \<Rightarrow> nat \<Rightarrow> world \<Rightarrow> world" where
  "check_and_send_alerts smtp course_id w =
     (case find (\<lambda>c. Course_id c = course_id) (courses w) of
        None \<Rightarrow> w
      | Some course \<Rightarrow>
          fold (app_alert_student smtp course)
            (filter (\<lambda>u. User_role u = ''student'') (users w)) w)"

section \<open>Recording attendance\<close>

subsection \<open>app.py: \<^verbatim>\<open>take_attendance\<close>\<close>

text \<open>
  The form lists hold the ids the page rendered; the model takes them as the numbers
  they denote. The code tests \<^verbatim>\<open>student_id in present_student_ids\<close> on the strings
  of the form, the model on the numbers: the same test as long as every id is written
  in one way only, as the page writes them. (A roster entry \<^verbatim>\<open>01\<close> with \<^verbatim>\<open>1\<close> marked
  present is Absent for the code and Present here.) \<^verbatim>\<open>INSERT OR REPLACE\<close> deletes the
  rows that collide with the new row on the unique constraint and inserts the new row.
\<close>

definition insert_or_replace :: "Attendance \<Rightarrow> Attendance list \<Rightarrow> Attendance list" where
  "insert_or_replace row tbl =
     filter (\<lambda>a. unique_attendance a \<noteq> unique_attendance row) tbl @ [row]"

definition take_attendance_row :: "nat \<Rightarrow> int \<Rightarrow> nat list \<Rightarrow> nat \<Rightarrow> Attendance" where
  "take_attendance_row course_id attendance_date present_student_ids student_id =
     \<lparr> Attendance_student_user_id = student_id, Attendance_course_id = course_id,
       Attendance_date = attendance_date,
       Attendance_status = (if student_id \<in> set present_student_ids then ''Present''
                            else ''Absent'') \<rparr>"

text \<open>The POST branch, after the role check: the loop, the commit, the alerting pass.\<close>

definition take_attendance ::
  "(email_call \<Rightarrow> bool) \<Rightarrow> nat \<Rightarrow> int \<Rightarrow> nat list \<Rightarrow> nat list \<Rightarrow> world \<Rightarrow> world" where
  "take_attendance smtp course_id attendance_date all_student_ids present_student_ids w =
     (let tbl = fold (\<lambda>student_id tbl.
                   insert_or_replace
                     (take_attendance_row course_id attendance_date present_student_ids student_id)
                     tbl)
                 all_student_ids (attendance w)
      in check_and_send_alerts smtp course_id (w\<lparr> attendance := tbl \<rparr>))"

subsection \<open>routes/faculty.py: \<^verbatim>\<open>take_attendance\<close>\<close>

text \<open>
  A form field is \<open>None\<close> when \<^verbatim>\<open>int\<close> or \<^verbatim>\<open>date.fromisoformat\<close> raises on it;
  as in app.py, membership in the list of present students is tested on the converted
  values, which is the test of the code for ids written in one way only. The
  session collects one new \<^verbatim>\<open>Attendance\<close> object per student; the commit inserts them
  in order, and an insert that collides with a row on the unique constraint raises.
\<close>

fun faculty_new_rows ::
  "nat option \<Rightarrow> int option \<Rightarrow> nat option list \<Rightarrow> nat option list \<Rightarrow> error + Attendance list" where
  "faculty_new_rows course_id attendance_date present_student_ids [] = Inr []"
| "faculty_new_rows course_id attendance_date present_student_ids (student_id # rest) =
     (case (student_id, course_id, attendance_date) of
        (Some s, Some c, Some d) \<Rightarrow>
          (case faculty_new_rows course_id attendance_date present_student_ids rest of
             Inl e \<Rightarrow> Inl e
           | Inr rows \<Rightarrow>
               Inr (\<lparr> Attendance_student_user_id = s, Attendance_course_id = c,
                      Attendance_date = d,
                      Attendance_status = (if student_id \<in> set present_student_ids
                                           then ''Present'' else ''Absent'') \<rparr> # rows))
      | _ \<Rightarrow> Inl ValueError)"

fun flush_inserts :: "Attendance list \<Rightarrow> Attendance list \<Rightarrow> error + Attendance list" where
  "flush_inserts [] tbl = Inr tbl"
| "flush_inserts (row # rows) tbl =
     (if unique_attendance row \<in> set (map unique_attendance tbl) then Inl IntegrityError
      else flush_inserts rows (tbl @ [row]))"

text \<open>The \<^verbatim>\<open>try\<close> block of the POST branch; \<open>Inl\<close> is the exception that leaves it.\<close>

definition faculty_take_attendance_try ::
  "Config \<Rightarrow> store_faults \<Rightarrow> (email_call \<Rightarrow> bool) \<Rightarrow> int
     \<Rightarrow> nat option \<Rightarrow> int option \<Rightarrow> nat option list \<Rightarrow> nat option list \<Rightarrow> world \<Rightarrow> error + world" where
  "faculty_take_attendance_try cfg faults smtp today course_id attendance_date
       all_student_ids present_student_ids w =
     (case faculty_new_rows course_id attendance_date present_student_ids all_student_ids of
        Inl e \<Rightarrow> Inl e
      | Inr rows \<Rightarrow>
          (case flush_inserts rows (attendance w) of
             Inl e \<Rightarrow> Inl e
           | Inr tbl \<Rightarrow>
               if commit_fails faults then Inl OperationalError
               else (case course_id of
                       None \<Rightarrow> Inl ValueError
                     | Some c \<Rightarrow>
                         Inr (snd (AttendanceService_check_and_send_alerts cfg faults smtp today
                                     c None None (w\<lparr> attendance := tbl \<rparr>))))))"

text \<open>
  The POST branch: the last flashed message and the state. When the block raises, the
  rollback leaves the store as it was. (\<^verbatim>\<open>int(course_id)\<close> can raise after the commit
  only when the roster is empty, and then the commit has inserted nothing.)
\<close>

definition faculty_take_attendance ::
  "Config \<Rightarrow> store_faults \<Rightarrow> (email_call \<Rightarrow> bool) \<Rightarrow> int
     \<Rightarrow> nat option \<Rightarrow> int option \<Rightarrow> nat option list \<Rightarrow> nat option list \<Rightarrow> world \<Rightarrow> string \<times> world" where
  "faculty_take_attendance cfg faults smtp today course_id attendance_date
       all_student_ids present_student_ids w =
     (case faculty_take_attendance_try cfg faults smtp today course_id attendance_date
             all_student_ids present_student_ids w of
        Inr w' \<Rightarrow> (''Attendance recorded successfully!'', w')
      | Inl e \<Rightarrow> (''An error occurred while recording attendance.'', w))"

section \<open>Modifying attendance\<close>

subsection \<open>app.py: \<^verbatim>\<open>modify_attendance\<close>\<close>

text \<open>
  \<^verbatim>\<open>UPDATE attendance SET status = ? WHERE student_user_id = ? AND course_id = ? AND date = ?\<close>
  on the table of database.py, whose status column carries
  \<^verbatim>\<open>CHECK(status IN ('Present', 'Absent'))\<close>: the statement raises when it would
  write another status into a row.
\<close>

definition sql_update_status ::
  "string \<Rightarrow> nat \<times> nat \<times> int \<Rightarrow> Attendance list \<Rightarrow> error + Attendance list" where
  "sql_update_status st k tbl =
     (if k \<in> set (map unique_attendance tbl) \<and> st \<noteq> ''Present'' \<and> st \<noteq> ''Absent''
      then Inl IntegrityError
      else Inr (map (\<lambda>a. if unique_attendance a = k then a\<lparr> Attendance_status := st \<rparr> else a)
                  tbl))"

text \<open>
  \<^verbatim>\<open>for i in range(len(student_ids))\<close> with \<^verbatim>\<open>statuses[i]\<close>: the two lists are walked
  together, and \<^verbatim>\<open>statuses[i]\<close> raises when the list of statuses is the shorter one.
\<close>

fun modify_loop ::
  "nat \<Rightarrow> int \<Rightarrow> nat list \<Rightarrow> string list \<Rightarrow> Attendance list \<Rightarrow> error + Attendance list" where
  "modify_loop course_id d [] statuses tbl = Inr tbl"
| "modify_loop course_id d (student_id # student_ids) [] tbl = Inl IndexError"
| "modify_loop course_id d (student_id # student_ids) (st # statuses) tbl =
     (case sql_update_status st (student_id, course_id, d) tbl of
        Inl e \<Rightarrow> Inl e
      | Inr tbl' \<Rightarrow> modify_loop course_id d student_ids statuses tbl')"

text \<open>
  The POST branch, after the role check. An exception is not caught: the request fails
  and the connection is closed without a commit, so the store is as it was.
\<close>

definition modify_attendance ::
  "(email_call \<Rightarrow> bool) \<Rightarrow> nat \<Rightarrow> int \<Rightarrow> nat list \<Rightarrow> string list \<Rightarrow> world \<Rightarrow> error + world" where
  "modify_attendance smtp course_id d student_ids statuses w =
     (case modify_loop course_id d student_ids statuses (attendance w) of
        Inl e \<Rightarrow> Inl e
      | Inr tbl \<Rightarrow> Inr (check_and_send_alerts smtp course_id (w\<lparr> attendance := tbl \<rparr>)))"

subsection \<open>routes/faculty.py: \<^verbatim>\<open>modify_attendance\<close>\<close>

text \<open>
  \<^verbatim>\<open>Attendance.query.filter_by(...).first()\<close> and, when a row is found, the assignment
  to its status: the first matching row changes.
\<close>

fun set_first_status :: "nat \<times> nat \<times> int \<Rightarrow> string \<Rightarrow> Attendance list \<Rightarrow> Attendance list" where
  "set_first_status k st [] = []"
| "set_first_status k st (a # tbl) =
     (if unique_attendance a = k then a\<lparr> Attendance_status := st \<rparr> # tbl
      else a # set_first_status k st tbl)"

text \<open>
  The loop. \<^verbatim>\<open>statuses[i]\<close> is read only when a row was found, so a short list of
  statuses raises only there.
\<close>

fun faculty_modify_loop ::
  "nat option \<Rightarrow> int option \<Rightarrow> nat option list \<Rightarrow> string list \<Rightarrow> Attendance list
     \<Rightarrow> error + Attendance list" where
  "faculty_modify_loop course_id d [] statuses tbl = Inr tbl"
| "faculty_modify_loop course_id d (student_id # student_ids) statuses tbl =
     (case (student_id, course_id, d) of
        (Some s, Some c, Some dt) \<Rightarrow>
          if (s, c, dt) \<in> set (map unique_attendance tbl) then
            (case statuses of
               [] \<Rightarrow> Inl IndexError
             | st # _ \<Rightarrow>
                 faculty_modify_loop course_id d student_ids (tl statuses)
                   (set_first_status (s, c, dt) st tbl))
          else faculty_modify_loop course_id d student_ids (tl statuses) tbl
      | _ \<Rightarrow> Inl ValueError)"

definition faculty_modify_attendance_try ::
  "Config \<Rightarrow> store_faults \<Rightarrow> (email_call \<Rightarrow> bool) \<Rightarrow> int
     \<Rightarrow> nat option \<Rightarrow> int option \<Rightarrow> nat option list \<Rightarrow> string list \<Rightarrow> world \<Rightarrow> error + world" where
  "faculty_modify_attendance_try cfg faults smtp today course_id d student_ids statuses w =
     (if query_fails faults \<and> student_ids \<noteq> [] then Inl OperationalError
      else case faculty_modify_loop course_id d student_ids statuses (attendance w) of
        Inl e \<Rightarrow> Inl e
      | Inr tbl \<Rightarrow>
          if commit_fails faults then Inl OperationalError
          else (case course_id of
                  None \<Rightarrow> Inl ValueError
                | Some c \<Rightarrow>
                    Inr (snd (AttendanceService_check_and_send_alerts cfg faults smtp today
                                c None None (w\<lparr> attendance := tbl \<rparr>)))))"

definition faculty_modify_attendance ::
  "Config \<Rightarrow> store_faults \<Rightarrow> (email_call \<Rightarrow> bool) \<Rightarrow> int
     \<Rightarrow> nat option \<Rightarrow> int option \<Rightarrow> nat option list \<Rightarrow> string list \<Rightarrow> world \<Rightarrow> string \<times> world" where
  "faculty_modify_attendance cfg faults smtp today course_id d student_ids statuses w =
     (case faculty_modify_attendance_try cfg faults smtp today course_id d student_ids statuses w of
        Inr w' \<Rightarrow> (''Attendance updated successfully!'', w')
      | Inl e \<Rightarrow> (''An error occurred while updating attendance.'', w))"

section \<open>Sample data\<close>

text \<open>
  One active student, one course, and a configuration with credentials, a threshold of
  75 and a period of 15 days. With today = 739471 (2025-08-08) the default window of
  services.py is 739456 to 739471, and the window of app.py is 739457 to 739471.
\<close>

definition student1 :: User where
  "student1 = \<lparr> User_id = 1, User_email = ''s1@example.com'', User_full_name = ''S1'',
                User_role = ''student'', User_is_active = True \<rparr>"

definition course1 :: Course where
  "course1 = \<lparr> Course_id = 1, Course_name = ''C1'' \<rparr>"

definition config75 :: Config where
  "config75 = \<lparr> MAIL_USERNAME = Some ''sender'', MAIL_PASSWORD = Some ''secret'',
                ATTENDANCE_THRESHOLD = 75, ALERT_PERIOD_DAYS = 15 \<rparr>"

definition row :: "nat \<Rightarrow> int \<Rightarrow> string \<Rightarrow> Attendance" where
  "row s d st = \<lparr> Attendance_student_user_id = s, Attendance_course_id = 1,
                  Attendance_date = d, Attendance_status = st \<rparr>"

definition world_of :: "Attendance list \<Rightarrow> world" where
  "world_of tbl = \<lparr> users = [student1], courses = [course1], attendance = tbl,
                    notifications = [], outbox = [], log_lines = [] \<rparr>"

definition no_faults :: store_faults where
  "no_faults = \<lparr> query_fails = False, commit_fails = False \<rparr>"

definition store_down :: store_faults where
  "store_down = \<lparr> query_fails = True, commit_fails = False \<rparr>"

definition smtp_up :: "email_call \<Rightarrow> bool" where
  "smtp_up call = True"

definition smtp_down :: "email_call \<Rightarrow> bool" where
  "smtp_down call = False"

definition call50 :: email_call where
  "call50 = \<lparr> student_email = ''s1@example.com'', student_name = ''S1'',
              course_name = ''C1'', percentage = 50 \<rparr>"

definition note50 :: Notification where
  "note50 = \<lparr> Notification_user_id = 1, Notification_title = ''Low Attendance Alert'',
              Notification_message = (''C1'', 50, 75),
              Notification_type = ''attendance_alert'' \<rparr>"

section \<open>The aggregates\<close>

lemma present_le_total:
  "present_classes tbl self c s e \<le> total_classes tbl self c s e"
  by (simp add: present_classes_def total_classes_def)

lemma summary_of_absent:
  "absent_records (summary_of q) = int (length (filter (\<lambda>a. Attendance_status a \<noteq> ''Present'') q))"
  using sum_length_filter_compl [of "\<lambda>a. Attendance_status a = ''Present''" q]
  by (simp add: summary_of_def Let_def)

section \<open>What an alerting pass of services.py adds\<close>

text \<open>
  The pass reads the users, the courses and the attendance and appends to the calls of
  the notifier, the notifications and the log; what it appends is a function of what it
  reads. Every call and every notification is for a student with a record in the window.
\<close>

lemma service_step_nodata:
  "total_classes (attendance w) student (Course_id course) (Some sd) (Some ed) = 0
   \<Longrightarrow> AttendanceService_alert_student cfg smtp course sd ed student w = w"
  by (simp add: AttendanceService_alert_student_def get_attendance_percentage_def)

lemma pct_pos_total:
  "0 < get_attendance_percentage tbl u c s e \<Longrightarrow> 0 < total_classes tbl u c s e"
  by (simp add: get_attendance_percentage_def split: if_splits)

lemma service_step_delta:
  "\<exists>calls ns. (\<forall>smtp w. attendance w = tbl \<longrightarrow>
       AttendanceService_alert_student cfg smtp course sd ed student w
         = w\<lparr> outbox := outbox w
                  @ map (\<lambda>c. (c, EmailService_send_attendance_alert cfg smtp c)) calls,
               notifications := notifications w @ ns \<rparr>)
     \<and> (\<forall>c \<in> set calls. student_email c = User_email student
            \<and> student_name c = User_full_name student
            \<and> 0 < total_classes tbl student (Course_id course) (Some sd) (Some ed))
     \<and> (\<forall>n \<in> set ns. Notification_user_id n = User_id student
            \<and> 0 < total_classes tbl student (Course_id course) (Some sd) (Some ed))"
proof (cases "get_attendance_percentage tbl student (Course_id course) (Some sd) (Some ed)
                < ATTENDANCE_THRESHOLD cfg
              \<and> 0 < get_attendance_percentage tbl student (Course_id course) (Some sd) (Some ed)")
  case True
  then have pos: "0 < total_classes tbl student (Course_id course) (Some sd) (Some ed)"
    using pct_pos_total by blast
  let ?pct = "get_attendance_percentage tbl student (Course_id course) (Some sd) (Some ed)"
  let ?call = "\<lparr> student_email = User_email student, student_name = User_full_name student,
                  course_name = Course_name course, percentage = ?pct \<rparr>"
  let ?n = "\<lparr> Notification_user_id = User_id student,
              Notification_title = ''Low Attendance Alert'',
              Notification_message = (Course_name course, ?pct, ATTENDANCE_THRESHOLD cfg),
              Notification_type = ''attendance_alert'' \<rparr>"
  show ?thesis
    apply (rule exI [of _ "[?call]"])
    apply (rule exI [of _ "[?n]"])
    using True pos by (simp add: AttendanceService_alert_student_def Let_def)
next
  case False
  show ?thesis
    apply (rule exI [of _ "[]"])
    apply (rule exI [of _ "[]"])
    using False by (auto simp add: AttendanceService_alert_student_def Let_def)
qed

lemma service_fold_delta:
  "\<exists>calls ns. (\<forall>smtp w. attendance w = tbl \<longrightarrow>
       fold (AttendanceService_alert_student cfg smtp course sd ed) students w
         = w\<lparr> outbox := outbox w
                  @ map (\<lambda>c. (c, EmailService_send_attendance_alert cfg smtp c)) calls,
               notifications := notifications w @ ns \<rparr>)
     \<and> (\<forall>c \<in> set calls. \<exists>u \<in> set students. student_email c = User_email u
            \<and> student_name c = User_full_name u
            \<and> 0 < total_classes tbl u (Course_id course) (Some sd) (Some ed))
     \<and> (\<forall>n \<in> set ns. \<exists>u \<in> set students. Notification_user_id n = User_id u
            \<and> 0 < total_classes tbl u (Course_id course) (Some sd) (Some ed))"
proof (induction students)
  case Nil
  show ?case
    by (rule exI [of _ "[]"], rule exI [of _ "[]"]) simp
next
  case (Cons s students)
  from Cons.IH obtain cs2 ns2 where
    f: "\<And>smtp w. attendance w = tbl \<Longrightarrow>
       fold (AttendanceService_alert_student cfg smtp course sd ed) students w
         = w\<lparr> outbox := outbox w
                  @ map (\<lambda>c. (c, EmailService_send_attendance_alert cfg smtp c)) cs2,
               notifications := notifications w @ ns2 \<rparr>"
    and c2: "\<forall>c \<in> set cs2. \<exists>u \<in> set students. student_email c = User_email u
            \<and> student_name c = User_full_name u
            \<and> 0 < total_classes tbl u (Course_id course) (Some sd) (Some ed)"
    and n2: "\<forall>n \<in> set ns2. \<exists>u \<in> set students. Notification_user_id n = User_id u
            \<and> 0 < total_classes tbl u (Course_id course) (Some sd) (Some ed)"
    by blast
  from service_step_delta [of tbl cfg course sd ed s] obtain cs1 ns1 where
    g: "\<And>smtp w. attendance w = tbl \<Longrightarrow>
       AttendanceService_alert_student cfg smtp course sd ed s w
         = w\<lparr> outbox := outbox w
                  @ map (\<lambda>c. (c, EmailService_send_attendance_alert cfg smtp c)) cs1,
               notifications := notifications w @ ns1 \<rparr>"
    and c1: "\<forall>c \<in> set cs1. student_email c = User_email s
            \<and> student_name c = User_full_name s
            \<and> 0 < total_classes tbl s (Course_id course) (Some sd) (Some ed)"
    and n1: "\<forall>n \<in> set ns1. Notification_user_id n = User_id s
            \<and> 0 < total_classes tbl s (Course_id course) (Some sd) (Some ed)"
    by blast
  show ?case
  proof (rule exI [of _ "cs1 @ cs2"], rule exI [of _ "ns1 @ ns2"], intro conjI allI impI)
    fix smtp and w :: world assume a: "attendance w = tbl"
    show "fold (AttendanceService_alert_student cfg smtp course sd ed) (s # students) w
         = w\<lparr> outbox := outbox w
                  @ map (\<lambda>c. (c, EmailService_send_attendance_alert cfg smtp c)) (cs1 @ cs2),
               notifications := notifications w @ ns1 @ ns2 \<rparr>"
      using a by (simp add: g f)
  next
    show "\<forall>c \<in> set (cs1 @ cs2). \<exists>u \<in> set (s # students). student_email c = User_email u
            \<and> student_name c = User_full_name u
            \<and> 0 < total_classes tbl u (Course_id course) (Some sd) (Some ed)"
      using c1 c2 by auto
  next
    show "\<forall>n \<in> set (ns1 @ ns2). \<exists>u \<in> set (s # students). Notification_user_id n = User_id u
            \<and> 0 < total_classes tbl u (Course_id course) (Some sd) (Some ed)"
      using n1 n2 by auto
  qed
qed

lemma find_Course_id: "find (\<lambda>c. Course_id c = cid) cs = Some course \<Longrightarrow> Course_id course = cid"
  by (auto simp add: find_Some_iff)

lemma service_pass_delta:
  "\<exists>calls ns. (\<forall>smtp faults w. users w = U \<and> courses w = C \<and> attendance w = tbl \<longrightarrow>
       (\<exists>ls. AttendanceService_check_and_send_alerts cfg faults smtp today cid sd ed w
         = (Inr (), w\<lparr> outbox := outbox w
                  @ (if query_fails faults then []
                     else map (\<lambda>c. (c, EmailService_send_attendance_alert cfg smtp c)) calls),
               notifications := notifications w
                  @ (if query_fails faults \<or> commit_fails faults then [] else ns),
               log_lines := log_lines w @ ls \<rparr>)))
     \<and> (\<forall>c \<in> set calls. \<exists>u \<in> set U. student_email c = User_email u
            \<and> student_name c = User_full_name u
            \<and> 0 < total_classes tbl u cid (Some (fst (alert_window cfg today sd ed)))
                    (Some (snd (alert_window cfg today sd ed))))
     \<and> (\<forall>n \<in> set ns. \<exists>u \<in> set U. Notification_user_id n = User_id u
            \<and> 0 < total_classes tbl u cid (Some (fst (alert_window cfg today sd ed)))
                    (Some (snd (alert_window cfg today sd ed))))"
proof (cases "find (\<lambda>c. Course_id c = cid) C")
  case None
  show ?thesis
    apply (rule exI [of _ "[]"], rule exI [of _ "[]"])
    using None
    by (auto simp add: AttendanceService_check_and_send_alerts_def check_and_send_alerts_try_def
          intro: exI [of _ "[]"] exI [of _ "[''Error processing attendance alerts'']"])
next
  case (Some course)
  then have cid: "Course_id course = cid" by (rule find_Course_id)
  obtain a b where win: "alert_window cfg today sd ed = (a, b)" by (cases "alert_window cfg today sd ed")
  let ?S = "filter (\<lambda>u. User_role u = ''student'' \<and> User_is_active u) U"
  from service_fold_delta [of tbl cfg course a b ?S] obtain calls ns where
    f: "\<And>smtp w. attendance w = tbl \<Longrightarrow>
       fold (AttendanceService_alert_student cfg smtp course a b) ?S w
         = w\<lparr> outbox := outbox w
                  @ map (\<lambda>c. (c, EmailService_send_attendance_alert cfg smtp c)) calls,
               notifications := notifications w @ ns \<rparr>"
    and c: "\<forall>c \<in> set calls. \<exists>u \<in> set ?S. student_email c = User_email u
            \<and> student_name c = User_full_name u
            \<and> 0 < total_classes tbl u (Course_id course) (Some a) (Some b)"
    and n: "\<forall>n \<in> set ns. \<exists>u \<in> set ?S. Notification_user_id n = User_id u
            \<and> 0 < total_classes tbl u (Course_id course) (Some a) (Some b)"
    by blast
  show ?thesis
  proof (rule exI [of _ calls], rule exI [of _ ns], intro conjI allI impI)
    fix smtp faults and w :: world
    assume h: "users w = U \<and> courses w = C \<and> attendance w = tbl"
    show "\<exists>ls. AttendanceService_check_and_send_alerts cfg faults smtp today cid sd ed w
         = (Inr (), w\<lparr> outbox := outbox w
                  @ (if query_fails faults then []
                     else map (\<lambda>c. (c, EmailService_send_attendance_alert cfg smtp c)) calls),
               notifications := notifications w
                  @ (if query_fails faults \<or> commit_fails faults then [] else ns),
               log_lines := log_lines w @ ls \<rparr>)"
    proof (cases "query_fails faults")
      case True
      then show ?thesis
        by (intro exI [of _ "[''Error processing attendance alerts'']"])
           (simp add: AttendanceService_check_and_send_alerts_def check_and_send_alerts_try_def)
    next
      case qf: False
      show ?thesis
      proof (cases "commit_fails faults")
        case True
        with qf h Some win show ?thesis
          by (intro exI [of _ "[''Error processing attendance alerts'']"])
             (simp add: AttendanceService_check_and_send_alerts_def check_and_send_alerts_try_def f)
      next
        case False
        with qf h Some win show ?thesis
          by (intro exI [of _ "[''Attendance alerts processed'']"])
             (simp add: AttendanceService_check_and_send_alerts_def check_and_send_alerts_try_def f)
      qed
    qed
  next
    show "\<forall>c \<in> set calls. \<exists>u \<in> set U. student_email c = User_email u
            \<and> student_name c = User_full_name u
            \<and> 0 < total_classes tbl u cid (Some (fst (alert_window cfg today sd ed)))
                    (Some (snd (alert_window cfg today sd ed)))"
      using c cid win by auto
  next
    show "\<forall>n \<in> set ns. \<exists>u \<in> set U. Notification_user_id n = User_id u
            \<and> 0 < total_classes tbl u cid (Some (fst (alert_window cfg today sd ed)))
                    (Some (snd (alert_window cfg today sd ed)))"
      using n cid win by auto
  qed
qed

section \<open>What an alerting pass of app.py adds\<close>

text \<open>
  The same for app.py, which appends only to the calls of the notifier.
\<close>

lemma app_step_nodata:
  "fst (stats_query (attendance w) (User_id student) (Course_id course)) = 0
   \<Longrightarrow> app_alert_student smtp course student w = w"
  by (auto simp add: app_alert_student_def split: prod.splits)

lemma app_step_delta:
  "\<exists>calls. (\<forall>smtp w. attendance w = tbl \<longrightarrow>
       app_alert_student smtp course student w
         = w\<lparr> outbox := outbox w @ map (\<lambda>c. (c, smtp c)) calls \<rparr>)
     \<and> (\<forall>c \<in> set calls. student_email c = User_email student
            \<and> student_name c = User_full_name student
            \<and> 0 < fst (stats_query tbl (User_id student) (Course_id course)))"
proof -
  obtain total present where st: "stats_query tbl (User_id student) (Course_id course) = (total, present)"
    by (cases "stats_query tbl (User_id student) (Course_id course)")
  let ?pct = "(of_nat present / of_nat total) * (100 :: rat)"
  show ?thesis
  proof (cases "0 < total \<and> ?pct < 75")
    case True
    show ?thesis
      apply (rule exI [of _ "[\<lparr> student_email = User_email student,
               student_name = User_full_name student,
               course_name = Course_name course, percentage = ?pct \<rparr>]"])
      using True st by (simp add: app_alert_student_def send_attendance_alert_def Let_def)
  next
    case False
    show ?thesis
      apply (rule exI [of _ "[]"])
      using False st by (auto simp add: app_alert_student_def)
  qed
qed

lemma app_fold_delta:
  "\<exists>calls. (\<forall>smtp w. attendance w = tbl \<longrightarrow>
       fold (app_alert_student smtp course) students w
         = w\<lparr> outbox := outbox w @ map (\<lambda>c. (c, smtp c)) calls \<rparr>)
     \<and> (\<forall>c \<in> set calls. \<exists>u \<in> set students. student_email c = User_email u
            \<and> student_name c = User_full_name u
            \<and> 0 < fst (stats_query tbl (User_id u) (Course_id course)))"
proof (induction students)
  case Nil
  show ?case by (rule exI [of _ "[]"]) simp
next
  case (Cons s students)
  from Cons.IH obtain cs2 where
    f: "\<And>smtp w. attendance w = tbl \<Longrightarrow>
       fold (app_alert_student smtp course) students w
         = w\<lparr> outbox := outbox w @ map (\<lambda>c. (c, smtp c)) cs2 \<rparr>"
    and c2: "\<forall>c \<in> set cs2. \<exists>u \<in> set students. student_email c = User_email u
            \<and> student_name c = User_full_name u
            \<and> 0 < fst (stats_query tbl (User_id u) (Course_id course))"
    by blast
  from app_step_delta [of tbl course s] obtain cs1 where
    g: "\<And>smtp w. attendance w = tbl \<Longrightarrow>
       app_alert_student smtp course s w
         = w\<lparr> outbox := outbox w @ map (\<lambda>c. (c, smtp c)) cs1 \<rparr>"
    and c1: "\<forall>c \<in> set cs1. student_email c = User_email s
            \<and> student_name c = User_full_name s
            \<and> 0 < fst (stats_query tbl (User_id s) (Course_id course))"
    by blast
  show ?case
  proof (rule exI [of _ "cs1 @ cs2"], intro conjI allI impI)
    fix smtp and w :: world assume a: "attendance w = tbl"
    show "fold (app_alert_student smtp course) (s # students) w
         = w\<lparr> outbox := outbox w @ map (\<lambda>c. (c, smtp c)) (cs1 @ cs2) \<rparr>"
      using a by (simp add: g f)
  next
    show "\<forall>c \<in> set (cs1 @ cs2). \<exists>u \<in> set (s # students). student_email c = User_email u
            \<and> student_name c = User_full_name u
            \<and> 0 < fst (stats_query tbl (User_id u) (Course_id course))"
      using c1 c2 by auto
  qed
qed

lemma app_pass_delta:
  "\<exists>calls. (\<forall>smtp w. users w = U \<and> courses w = C \<and> attendance w = tbl \<longrightarrow>
       check_and_send_alerts smtp cid w
         = w\<lparr> outbox := outbox w @ map (\<lambda>c. (c, smtp c)) calls \<rparr>)
     \<and> (\<forall>c \<in> set calls. \<exists>u \<in> set U. student_email c = User_email u
            \<and> student_name c = User_full_name u
            \<and> 0 < fst (stats_query tbl (User_id u) cid))"
proof (cases "find (\<lambda>c. Course_id c = cid) C")
  case None
  show ?thesis
    by (rule exI [of _ "[]"]) (simp add: check_and_send_alerts_def None)
next
  case (Some course)
  then have cid: "Course_id course = cid" by (rule find_Course_id)
  let ?S = "filter (\<lambda>u. User_role u = ''student'') U"
  from app_fold_delta [of tbl course ?S] obtain calls where
    f: "\<And>smtp w. attendance w = tbl \<Longrightarrow>
       fold (app_alert_student smtp course) ?S w
         = w\<lparr> outbox := outbox w @ map (\<lambda>c. (c, smtp c)) calls \<rparr>"
    and c: "\<forall>c \<in> set calls. \<exists>u \<in> set ?S. student_email c = User_email u
            \<and> student_name c = User_full_name u
            \<and> 0 < fst (stats_query tbl (User_id u) (Course_id course))"
    by blast
  show ?thesis
  proof (rule exI [of _ calls], intro conjI allI impI)
    fix smtp and w :: world
    assume h: "users w = U \<and> courses w = C \<and> attendance w = tbl"
    then show "check_and_send_alerts smtp cid w
         = w\<lparr> outbox := outbox w @ map (\<lambda>c. (c, smtp c)) calls \<rparr>"
      by (simp add: check_and_send_alerts_def Some f)
  next
    show "\<forall>c \<in> set calls. \<exists>u \<in> set U. student_email c = User_email u
            \<and> student_name c = User_full_name u
            \<and> 0 < fst (stats_query tbl (User_id u) cid)"
      using c cid by auto
  qed
qed

section \<open>An alerting pass leaves the attendance alone\<close>

lemma service_pass_attendance:
  "attendance (snd (AttendanceService_check_and_send_alerts cfg faults smtp today cid sd ed w))
     = attendance w"
proof -
  from service_pass_delta [of "users w" "courses w" "attendance w" cfg today cid sd ed]
  obtain calls ns ls where
    "AttendanceService_check_and_send_alerts cfg faults smtp today cid sd ed w
         = (Inr (), w\<lparr> outbox := outbox w
                  @ (if query_fails faults then []
                     else map (\<lambda>c. (c, EmailService_send_attendance_alert cfg smtp c)) calls),
               notifications := notifications w
                  @ (if query_fails faults \<or> commit_fails faults then [] else ns),
               log_lines := log_lines w @ ls \<rparr>)"
    by blast
  then show ?thesis by simp
qed

lemma app_pass_attendance: "attendance (check_and_send_alerts smtp cid w) = attendance w"
proof -
  from app_pass_delta [of "users w" "courses w" "attendance w" cid]
  obtain calls where
    "check_and_send_alerts smtp cid w = w\<lparr> outbox := outbox w @ map (\<lambda>c. (c, smtp c)) calls \<rparr>"
    by blast
  then show ?thesis by simp
qed

lemmas sample_defs = student1_def course1_def config75_def row_def world_of_def no_faults_def
  store_down_def smtp_up_def smtp_down_def call50_def note50_def

lemmas service_defs = AttendanceService_check_and_send_alerts_def check_and_send_alerts_try_def
  AttendanceService_alert_student_def EmailService_send_attendance_alert_def truthy_def
  alert_window_def get_attendance_percentage_def total_classes_def present_classes_def
  percentage_query_def filter_dates_def

lemmas app_defs = check_and_send_alerts_def app_alert_student_def send_attendance_alert_def
  stats_query_def PERIOD_START_DATE_def PERIOD_END_DATE_def

section \<open>Alerting and repeated runs\<close>

text \<open>
  C1, as the code has it. Neither alerting pass keeps a record of the alerts it sent or
  looks for one: there is no window key and no outcome for a duplicate. A second run
  over the same window, with the attendance unchanged, calls the notifier with exactly
  the arguments of the first run again, whatever became of the first mails; in
  services.py it also appends the notifications of the first run a second time.
\<close>

theorem alerts_repeat_on_rerun:
  "(let w1 = snd (AttendanceService_check_and_send_alerts cfg faults smtp1 today cid sd ed w);
        w2 = snd (AttendanceService_check_and_send_alerts cfg faults smtp2 today cid sd ed w1)
    in map fst (outbox w2)
         = map fst (outbox w1) @ drop (length (outbox w)) (map fst (outbox w1))
       \<and> notifications w2
         = notifications w1 @ drop (length (notifications w)) (notifications w1))
   \<and> (let v1 = check_and_send_alerts smtp1 cid w;
          v2 = check_and_send_alerts smtp2 cid v1
      in map fst (outbox v2)
           = map fst (outbox v1) @ drop (length (outbox w)) (map fst (outbox v1)))"
proof -
  from service_pass_delta [of "users w" "courses w" "attendance w" cfg today cid sd ed]
  obtain calls ns where
    f: "\<And>smtp faults v. users v = users w \<and> courses v = courses w \<and> attendance v = attendance w \<Longrightarrow>
       \<exists>ls. AttendanceService_check_and_send_alerts cfg faults smtp today cid sd ed v
         = (Inr (), v\<lparr> outbox := outbox v
                  @ (if query_fails faults then []
                     else map (\<lambda>c. (c, EmailService_send_attendance_alert cfg smtp c)) calls),
               notifications := notifications v
                  @ (if query_fails faults \<or> commit_fails faults then [] else ns),
               log_lines := log_lines v @ ls \<rparr>)"
    by blast
  from f [where v = w and smtp = smtp1 and faults = faults] obtain ls1 where
    r1: "AttendanceService_check_and_send_alerts cfg faults smtp1 today cid sd ed w
         = (Inr (), w\<lparr> outbox := outbox w
                  @ (if query_fails faults then []
                     else map (\<lambda>c. (c, EmailService_send_attendance_alert cfg smtp1 c)) calls),
               notifications := notifications w
                  @ (if query_fails faults \<or> commit_fails faults then [] else ns),
               log_lines := log_lines w @ ls1 \<rparr>)"
    by auto
  define w1 where "w1 = snd (AttendanceService_check_and_send_alerts cfg faults smtp1 today cid sd ed w)"
  have same: "users w1 = users w \<and> courses w1 = courses w \<and> attendance w1 = attendance w"
    by (simp add: w1_def r1)
  from f [where v = w1 and smtp = smtp2 and faults = faults, OF same] obtain ls2 where
    r2: "AttendanceService_check_and_send_alerts cfg faults smtp2 today cid sd ed w1
         = (Inr (), w1\<lparr> outbox := outbox w1
                  @ (if query_fails faults then []
                     else map (\<lambda>c. (c, EmailService_send_attendance_alert cfg smtp2 c)) calls),
               notifications := notifications w1
                  @ (if query_fails faults \<or> commit_fails faults then [] else ns),
               log_lines := log_lines w1 @ ls2 \<rparr>)"
    by auto
  have o1: "outbox w1 = outbox w @ (if query_fails faults then []
                     else map (\<lambda>c. (c, EmailService_send_attendance_alert cfg smtp1 c)) calls)"
    and n1: "notifications w1 = notifications w
                  @ (if query_fails faults \<or> commit_fails faults then [] else ns)"
    by (simp_all add: w1_def r1)
  have service: "map fst (outbox (snd (AttendanceService_check_and_send_alerts cfg faults smtp2 today cid sd ed w1)))
         = map fst (outbox w1) @ drop (length (outbox w)) (map fst (outbox w1))
       \<and> notifications (snd (AttendanceService_check_and_send_alerts cfg faults smtp2 today cid sd ed w1))
         = notifications w1 @ drop (length (notifications w)) (notifications w1)"
    by (simp add: r2 o1 n1 comp_def)
  from app_pass_delta [of "users w" "courses w" "attendance w" cid]
  obtain acalls where
    g: "\<And>smtp v. users v = users w \<and> courses v = courses w \<and> attendance v = attendance w \<Longrightarrow>
       check_and_send_alerts smtp cid v
         = v\<lparr> outbox := outbox v @ map (\<lambda>c. (c, smtp c)) acalls \<rparr>"
    by blast
  define v1 where "v1 = check_and_send_alerts smtp1 cid w"
  have a1: "v1 = w\<lparr> outbox := outbox w @ map (\<lambda>c. (c, smtp1 c)) acalls \<rparr>"
    unfolding v1_def by (rule g) simp
  have a2: "check_and_send_alerts smtp2 cid v1
         = v1\<lparr> outbox := outbox v1 @ map (\<lambda>c. (c, smtp2 c)) acalls \<rparr>"
    by (rule g) (simp add: a1)
  have app: "map fst (outbox (check_and_send_alerts smtp2 cid v1))
           = map fst (outbox v1) @ drop (length (outbox w)) (map fst (outbox v1))"
    by (simp add: a2) (simp add: a1 comp_def)
  from service app show ?thesis
    unfolding Let_def w1_def v1_def by blast
qed

text \<open>
  C1 as stated fails: a student at 50 percent is alerted by the first run and again by
  the second, in services.py (two calls, two notifications) and in app.py (two calls).
\<close>

theorem second_run_alerts_again:
  "map fst (outbox (snd (AttendanceService_check_and_send_alerts config75 no_faults smtp_up
       739471 1 None None
       (snd (AttendanceService_check_and_send_alerts config75 no_faults smtp_up
          739471 1 None None
          (world_of [row 1 739460 ''Present'', row 1 739461 ''Absent'']))))))
     = [call50, call50]
   \<and> notifications (snd (AttendanceService_check_and_send_alerts config75 no_faults smtp_up
       739471 1 None None
       (snd (AttendanceService_check_and_send_alerts config75 no_faults smtp_up
          739471 1 None None
          (world_of [row 1 739460 ''Present'', row 1 739461 ''Absent''])))))
     = [note50, note50]
   \<and> outbox (check_and_send_alerts smtp_up 1
       (check_and_send_alerts smtp_up 1
          (world_of [row 1 739460 ''Present'', row 1 739461 ''Absent''])))
     = [(call50, True), (call50, True)]"
  by (simp add: sample_defs service_defs app_defs)

section \<open>The percentage of a student without records\<close>

text \<open>
  C5, as the code has it. \<^verbatim>\<open>get_attendance_percentage\<close> returns the number 0 when the
  student has no record in the window (\<^verbatim>\<open>if total_classes == 0: return 0\<close>). It
  returns 0 exactly when no record in the window is Present, so the value for a student
  without records is the value for a student who missed every class.
\<close>

theorem percentage_zero_iff_no_present:
  "(total_classes tbl self course_id start_date end_date = 0
      \<longrightarrow> get_attendance_percentage tbl self course_id start_date end_date = 0)
   \<and> (get_attendance_percentage tbl self course_id start_date end_date = 0
      \<longleftrightarrow> present_classes tbl self course_id start_date end_date = 0)"
  using present_le_total [of tbl self course_id start_date end_date]
  by (auto simp add: get_attendance_percentage_def)

theorem percentage_zero_iff_no_present_witness:
  "total_classes [] student1 1 None None = 0
   \<and> get_attendance_percentage [] student1 1 None None = 0
   \<and> present_classes [row 1 739460 ''Absent''] student1 1 None None = 0
   \<and> get_attendance_percentage [row 1 739460 ''Absent''] student1 1 None None = 0"
  using percentage_zero_iff_no_present [of "[]" student1 1 None None]
    percentage_zero_iff_no_present [of "[row 1 739460 ''Absent'']" student1 1 None None]
  by (simp add: total_classes_def present_classes_def percentage_query_def filter_dates_def
        sample_defs)

text \<open>
  C5 as stated fails: without records the result is the number 0, equal to the result
  for one record that is Absent.
\<close>

theorem no_records_percentage_is_number_zero:
  "get_attendance_percentage [] student1 1 None None = 0
   \<and> get_attendance_percentage [] student1 1 None None
       = get_attendance_percentage [row 1 739460 ''Absent''] student1 1 None None"
  by (simp add: get_attendance_percentage_def total_classes_def present_classes_def
        percentage_query_def filter_dates_def sample_defs)

section \<open>The course summary\<close>

lemma summary_of_fields:
  "total_records (summary_of q) = int (length q)
   \<and> present_records (summary_of q)
       = int (length (filter (\<lambda>a. Attendance_status a = ''Present'') q))
   \<and> absent_records (summary_of q) = total_records (summary_of q) - present_records (summary_of q)
   \<and> absent_records (summary_of q)
       = int (length (filter (\<lambda>a. Attendance_status a \<noteq> ''Present'') q))
   \<and> attendance_rate (summary_of q)
       = (if total_records (summary_of q) > 0
          then of_int (present_records (summary_of q)) / of_int (total_records (summary_of q)) * 100
          else 0)"
  using summary_of_absent [of q] by (simp add: summary_of_def Let_def)

lemma report_query:
  "(case course_id of None \<Rightarrow> tbl
    | Some c \<Rightarrow> if c = 0 then tbl else filter (\<lambda>a. Attendance_course_id a = c) tbl)
   = filter (\<lambda>a. case course_id of None \<Rightarrow> True
                  | Some c \<Rightarrow> c = 0 \<or> Attendance_course_id a = c) tbl"
  by (cases course_id) auto

text \<open>
  C8, as the code has it. \<^verbatim>\<open>Course.get_attendance_summary\<close> and
  \<^verbatim>\<open>ReportService.get_attendance_summary\<close> report as \<^verbatim>\<open>total_records\<close> the number of
  attendance rows of the course (of all courses when no course is given) in the date
  range, as \<^verbatim>\<open>present_records\<close> the number of those rows that are Present, as
  \<^verbatim>\<open>absent_records\<close> the difference (the number of the rows that are not Present), and
  as rate present / total * 100 when there are rows and 0 when there are none; for a
  course the two functions return the same summary. The per-student aggregation follows
  the same rule for no rows: \<^verbatim>\<open>get_attendance_percentage\<close> returns the number 0 for a
  student without records, not a separate no-data value. Neither alerting pass calls
  the notifier for such a student.
\<close>

theorem summaries_count_the_table:
  "(let q = filter_dates start_date end_date
              (filter (\<lambda>a. Attendance_course_id a = Course_id course) tbl);
        s = Course_get_attendance_summary tbl course start_date end_date
    in total_records s = int (length q)
       \<and> present_records s = int (length (filter (\<lambda>a. Attendance_status a = ''Present'') q))
       \<and> absent_records s = total_records s - present_records s
       \<and> absent_records s = int (length (filter (\<lambda>a. Attendance_status a \<noteq> ''Present'') q))
       \<and> attendance_rate s
           = (if total_records s > 0
              then of_int (present_records s) / of_int (total_records s) * 100 else 0))
   \<and> (let q = filter_dates start_date end_date
                (filter (\<lambda>a. case course_id of None \<Rightarrow> True
                             | Some c \<Rightarrow> c = 0 \<or> Attendance_course_id a = c) tbl)
      in \<exists>s. ReportService_get_attendance_summary False tbl course_id start_date end_date = Some s
           \<and> total_records s = int (length q)
           \<and> present_records s
               = int (length (filter (\<lambda>a. Attendance_status a = ''Present'') q))
           \<and> absent_records s = total_records s - present_records s
           \<and> absent_records s
               = int (length (filter (\<lambda>a. Attendance_status a \<noteq> ''Present'') q))
           \<and> attendance_rate s
               = (if total_records s > 0
                  then of_int (present_records s) / of_int (total_records s) * 100 else 0))
   \<and> (Course_id course \<noteq> 0 \<longrightarrow>
        ReportService_get_attendance_summary False tbl (Some (Course_id course))
            start_date end_date
          = Some (Course_get_attendance_summary tbl course start_date end_date))
   \<and> (total_classes tbl student cid sd ed = 0
        \<longrightarrow> get_attendance_percentage tbl student cid sd ed = 0)
   \<and> (total_classes (attendance w) student (Course_id course) (Some wsd) (Some wed) = 0
        \<longrightarrow> AttendanceService_alert_student cfg smtp course wsd wed student w = w)
   \<and> (fst (stats_query (attendance w) (User_id student) (Course_id course)) = 0
        \<longrightarrow> app_alert_student smtp course student w = w)"
proof -
  have 1: "let q = filter_dates start_date end_date
              (filter (\<lambda>a. Attendance_course_id a = Course_id course) tbl);
        s = Course_get_attendance_summary tbl course start_date end_date
    in total_records s = int (length q)
       \<and> present_records s = int (length (filter (\<lambda>a. Attendance_status a = ''Present'') q))
       \<and> absent_records s = total_records s - present_records s
       \<and> absent_records s = int (length (filter (\<lambda>a. Attendance_status a \<noteq> ''Present'') q))
       \<and> attendance_rate s
           = (if total_records s > 0
              then of_int (present_records s) / of_int (total_records s) * 100 else 0)"
    unfolding Let_def Course_get_attendance_summary_def by (rule summary_of_fields)
  have 2: "let q = filter_dates start_date end_date
                (filter (\<lambda>a. case course_id of None \<Rightarrow> True
                             | Some c \<Rightarrow> c = 0 \<or> Attendance_course_id a = c) tbl)
      in \<exists>s. ReportService_get_attendance_summary False tbl course_id start_date end_date = Some s
           \<and> total_records s = int (length q)
           \<and> present_records s
               = int (length (filter (\<lambda>a. Attendance_status a = ''Present'') q))
           \<and> absent_records s = total_records s - present_records s
           \<and> absent_records s
               = int (length (filter (\<lambda>a. Attendance_status a \<noteq> ''Present'') q))
           \<and> attendance_rate s
               = (if total_records s > 0
                  then of_int (present_records s) / of_int (total_records s) * 100 else 0)"
  proof -
    let ?q = "filter_dates start_date end_date
                (filter (\<lambda>a. case course_id of None \<Rightarrow> True
                             | Some c \<Rightarrow> c = 0 \<or> Attendance_course_id a = c) tbl)"
    have eq: "ReportService_get_attendance_summary False tbl course_id start_date end_date
                = Some (summary_of ?q)"
      by (simp add: ReportService_get_attendance_summary_def report_query)
    show ?thesis
      unfolding Let_def eq using summary_of_fields [of ?q] by blast
  qed
  have 3: "Course_id course \<noteq> 0 \<longrightarrow>
        ReportService_get_attendance_summary False tbl (Some (Course_id course))
            start_date end_date
          = Some (Course_get_attendance_summary tbl course start_date end_date)"
    by (simp add: ReportService_get_attendance_summary_def Course_get_attendance_summary_def)
  have 4: "total_classes tbl student cid sd ed = 0
        \<longrightarrow> get_attendance_percentage tbl student cid sd ed = 0"
    by (simp add: get_attendance_percentage_def)
  from 1 2 3 4 service_step_nodata [of w student course wsd wed cfg smtp]
    app_step_nodata [of w student course smtp]
  show ?thesis by blast
qed

theorem summaries_count_the_table_witness:
  "Course_id course1 \<noteq> 0
   \<and> ReportService_get_attendance_summary False
        [row 1 739460 ''Present'', row 1 739461 ''Absent'', row 2 739461 ''Absent'',
         row 2 739460 ''Present'']
        (Some 1) None None
      = Some \<lparr> total_records = 4, present_records = 2, absent_records = 2,
               attendance_rate = 50 \<rparr>
   \<and> Course_get_attendance_summary
        [row 1 739460 ''Present'', row 1 739461 ''Absent'', row 2 739461 ''Absent'',
         row 2 739460 ''Present'']
        course1 None None
      = \<lparr> total_records = 4, present_records = 2, absent_records = 2, attendance_rate = 50 \<rparr>
   \<and> total_classes
        [row 1 739460 ''Present'', row 1 739461 ''Absent'', row 2 739461 ''Absent'',
         row 2 739460 ''Present'']
        student1 2 (Some 739456) (Some 739471) = 0
   \<and> get_attendance_percentage
        [row 1 739460 ''Present'', row 1 739461 ''Absent'', row 2 739461 ''Absent'',
         row 2 739460 ''Present'']
        student1 2 (Some 739456) (Some 739471) = 0
   \<and> total_classes (attendance (world_of [row 2 739460 ''Present''])) student1
        (Course_id course1) (Some 739456) (Some 739471) = 0
   \<and> AttendanceService_alert_student config75 smtp_up course1 739456 739471 student1
        (world_of [row 2 739460 ''Present'']) = world_of [row 2 739460 ''Present'']
   \<and> fst (stats_query (attendance (world_of [row 2 739460 ''Present''])) (User_id student1)
        (Course_id course1)) = 0
   \<and> app_alert_student smtp_up course1 student1 (world_of [row 2 739460 ''Present''])
        = world_of [row 2 739460 ''Present'']"
proof -
  have c: "Course_id course1 \<noteq> 0" by (simp add: course1_def)
  have t: "total_classes
        [row 1 739460 ''Present'', row 1 739461 ''Absent'', row 2 739461 ''Absent'',
         row 2 739460 ''Present'']
        student1 2 (Some 739456) (Some 739471) = 0"
    by (simp add: total_classes_def percentage_query_def filter_dates_def row_def student1_def)
  have t': "total_classes (attendance (world_of [row 2 739460 ''Present''])) student1
        (Course_id course1) (Some 739456) (Some 739471) = 0"
    by (simp add: total_classes_def percentage_query_def filter_dates_def sample_defs)
  have s: "fst (stats_query (attendance (world_of [row 2 739460 ''Present''])) (User_id student1)
        (Course_id course1)) = 0"
    by (simp add: stats_query_def sample_defs)
  have r: "Course_get_attendance_summary
        [row 1 739460 ''Present'', row 1 739461 ''Absent'', row 2 739461 ''Absent'',
         row 2 739460 ''Present'']
        course1 None None
      = \<lparr> total_records = 4, present_records = 2, absent_records = 2, attendance_rate = 50 \<rparr>"
    by (simp add: Course_get_attendance_summary_def summary_of_def filter_dates_def row_def
          course1_def)
  have i: "Some (Course_id course1) = Some 1" by (simp add: course1_def)
  from summaries_count_the_table [where course = course1 and start_date = None
      and end_date = None and course_id = "Some 1" and student = student1 and cid = 2
      and sd = "Some 739456" and ed = "Some 739471"
      and tbl = "[row 1 739460 ''Present'', row 1 739461 ''Absent'', row 2 739461 ''Absent'',
                  row 2 739460 ''Present'']"
      and w = "world_of [row 2 739460 ''Present'']" and wsd = 739456 and wed = 739471
      and cfg = config75 and smtp = smtp_up]
    c t t' s r i
  show ?thesis by simp
qed

text \<open>
  C8 as stated fails in its last clause: for a student without records in a course the
  per-student percentage is the number 0, the very value the summary of a course without
  records reports as its rate.
\<close>

theorem zero_records_percentage_equals_summary_rate:
  "total_classes [row 2 739460 ''Present''] student1 1 None None = 0
   \<and> get_attendance_percentage [row 2 739460 ''Present''] student1 1 None None = 0
   \<and> total_records (Course_get_attendance_summary [] course1 None None) = 0
   \<and> attendance_rate (Course_get_attendance_summary [] course1 None None) = 0
   \<and> get_attendance_percentage [row 2 739460 ''Present''] student1 1 None None
       = attendance_rate (Course_get_attendance_summary [] course1 None None)"
  by (simp add: get_attendance_percentage_def total_classes_def present_classes_def
        percentage_query_def filter_dates_def Course_get_attendance_summary_def summary_of_def
        sample_defs)

section \<open>Failures during an alerting pass\<close>

text \<open>
  C9, as the code has it. \<^verbatim>\<open>AttendanceService.check_and_send_alerts\<close> catches every
  exception of its body: it always returns normally to its caller. When the store is
  unavailable it only writes a line to the log; when any store operation of the body
  raises, the notifications of the pass are rolled back and a line is written to the log.
\<close>

theorem store_failure_is_swallowed:
  "fst (AttendanceService_check_and_send_alerts cfg faults smtp today cid sd ed w) = Inr ()
   \<and> (query_fails faults \<longrightarrow>
        check_and_send_alerts_try cfg faults smtp today cid sd ed w = Inl (OperationalError, w)
        \<and> snd (AttendanceService_check_and_send_alerts cfg faults smtp today cid sd ed w)
            = w\<lparr> log_lines := log_lines w @ [''Error processing attendance alerts''] \<rparr>)
   \<and> (check_and_send_alerts_try cfg faults smtp today cid sd ed w = Inl (e, w') \<longrightarrow>
        snd (AttendanceService_check_and_send_alerts cfg faults smtp today cid sd ed w)
          = w'\<lparr> notifications := notifications w,
                 log_lines := log_lines w' @ [''Error processing attendance alerts''] \<rparr>)"
  by (auto simp add: AttendanceService_check_and_send_alerts_def check_and_send_alerts_try_def
        split: sum.splits prod.splits)

theorem store_failure_is_swallowed_witness:
  "query_fails store_down
   \<and> check_and_send_alerts_try config75 store_down smtp_up 739471 1 None None
        (world_of [row 1 739460 ''Present'', row 1 739461 ''Absent''])
       = Inl (OperationalError, world_of [row 1 739460 ''Present'', row 1 739461 ''Absent''])
   \<and> AttendanceService_check_and_send_alerts config75 store_down smtp_up 739471 1 None None
        (world_of [row 1 739460 ''Present'', row 1 739461 ''Absent''])
       = (Inr (), (world_of [row 1 739460 ''Present'', row 1 739461 ''Absent''])
                    \<lparr> log_lines := [''Error processing attendance alerts''] \<rparr>)"
  using store_failure_is_swallowed [of config75 store_down smtp_up 739471 1 None None
          "world_of [row 1 739460 ''Present'', row 1 739461 ''Absent'']" OperationalError
          "world_of [row 1 739460 ''Present'', row 1 739461 ''Absent'']"]
  by (simp add: store_down_def world_of_def prod_eq_iff)

text \<open>
  C9 as stated fails: with the store down the body raises, and the function returns to
  its caller what it returns after a pass without any failure.
\<close>

theorem store_down_returns_normally:
  "check_and_send_alerts_try config75 store_down smtp_up 739471 1 None None
        (world_of [row 1 739460 ''Present'', row 1 739461 ''Absent''])
       = Inl (OperationalError, world_of [row 1 739460 ''Present'', row 1 739461 ''Absent''])
   \<and> fst (AttendanceService_check_and_send_alerts config75 store_down smtp_up 739471 1 None None
        (world_of [row 1 739460 ''Present'', row 1 739461 ''Absent''])) = Inr ()
   \<and> fst (AttendanceService_check_and_send_alerts config75 store_down smtp_up 739471 1 None None
        (world_of [row 1 739460 ''Present'', row 1 739461 ''Absent'']))
      = fst (AttendanceService_check_and_send_alerts config75 no_faults smtp_up 739471 1 None None
        (world_of [row 1 739460 ''Present'', row 1 739461 ''Absent'']))"
  by (simp add: sample_defs service_defs)

text \<open>
  C3, as the code has it. When the notifier fails for a student in violation (the call
  of \<^verbatim>\<open>send_attendance_alert\<close> returns \<^verbatim>\<open>False\<close>), services.py adds the notification
  record for the student all the same: the result of the send is not looked at. No
  record is consulted before a send, so dispatching for the student again calls the
  notifier again with the same arguments.
\<close>

theorem failed_send_still_notifies:
  assumes "AttendanceService_alert_student cfg smtp course sd ed student w = w'"
    and "outbox w' = outbox w @ [(call, False)]"
  shows "notifications w' = notifications w @
           [\<lparr> Notification_user_id = User_id student,
              Notification_title = ''Low Attendance Alert'',
              Notification_message = (Course_name course, percentage call, ATTENDANCE_THRESHOLD cfg),
              Notification_type = ''attendance_alert'' \<rparr>]
         \<and> outbox (AttendanceService_alert_student cfg smtp2 course sd ed student w')
             = outbox w' @ [(call, EmailService_send_attendance_alert cfg smtp2 call)]"
proof -
  let ?pct = "get_attendance_percentage (attendance w) student (Course_id course) (Some sd) (Some ed)"
  have viol: "?pct < ATTENDANCE_THRESHOLD cfg \<and> 0 < ?pct"
  proof (rule ccontr)
    assume "\<not> ?thesis"
    then have "w' = w" using assms(1) by (auto simp add: AttendanceService_alert_student_def)
    with assms(2) show False by simp
  qed
  let ?call = "\<lparr> student_email = User_email student, student_name = User_full_name student,
                  course_name = Course_name course, percentage = ?pct \<rparr>"
  have w': "w' = w\<lparr> outbox := outbox w @ [(?call, EmailService_send_attendance_alert cfg smtp ?call)],
                    notifications := notifications w @
           [\<lparr> Notification_user_id = User_id student,
              Notification_title = ''Low Attendance Alert'',
              Notification_message = (Course_name course, ?pct, ATTENDANCE_THRESHOLD cfg),
              Notification_type = ''attendance_alert'' \<rparr>] \<rparr>"
    using assms(1) viol by (simp add: AttendanceService_alert_student_def Let_def)
  with assms(2) have call: "call = ?call" by simp
  have att: "attendance w' = attendance w" by (simp add: w')
  have "outbox (AttendanceService_alert_student cfg smtp2 course sd ed student w')
          = outbox w' @ [(?call, EmailService_send_attendance_alert cfg smtp2 ?call)]"
    using viol by (simp add: AttendanceService_alert_student_def Let_def att)
  with call w' show ?thesis by simp
qed

theorem failed_send_still_notifies_witness:
  "AttendanceService_alert_student config75 smtp_down course1 739456 739471 student1
       (world_of [row 1 739460 ''Present'', row 1 739461 ''Absent''])
     = (world_of [row 1 739460 ''Present'', row 1 739461 ''Absent''])
         \<lparr> outbox := [(call50, False)], notifications := [note50] \<rparr>
   \<and> outbox (AttendanceService_alert_student config75 smtp_up course1 739456 739471 student1
       ((world_of [row 1 739460 ''Present'', row 1 739461 ''Absent''])
         \<lparr> outbox := [(call50, False)], notifications := [note50] \<rparr>))
     = [(call50, False), (call50, True)]"
proof -
  have a: "AttendanceService_alert_student config75 smtp_down course1 739456 739471 student1
       (world_of [row 1 739460 ''Present'', row 1 739461 ''Absent''])
     = (world_of [row 1 739460 ''Present'', row 1 739461 ''Absent''])
         \<lparr> outbox := [(call50, False)], notifications := [note50] \<rparr>"
    by (simp add: sample_defs service_defs)
  have b: "outbox ((world_of [row 1 739460 ''Present'', row 1 739461 ''Absent''])
         \<lparr> outbox := [(call50, False)], notifications := [note50] \<rparr>)
       = outbox (world_of [row 1 739460 ''Present'', row 1 739461 ''Absent'']) @ [(call50, False)]"
    by (simp add: world_of_def)
  have c: "EmailService_send_attendance_alert config75 smtp_up call50 = True"
    by (simp add: sample_defs service_defs)
  from failed_send_still_notifies [OF a b, of smtp_up] a c show ?thesis
    by simp
qed

text \<open>
  C3 as stated fails: with the SMTP exchange failing, the pass ends with the failed call
  and with a notification record written for the student.
\<close>

theorem failed_send_writes_notification:
  "outbox (snd (AttendanceService_check_and_send_alerts config75 no_faults smtp_down
       739471 1 None None (world_of [row 1 739460 ''Present'', row 1 739461 ''Absent''])))
     = [(call50, False)]
   \<and> notifications (snd (AttendanceService_check_and_send_alerts config75 no_faults smtp_down
       739471 1 None None (world_of [row 1 739460 ''Present'', row 1 739461 ''Absent''])))
     = [note50]"
  by (simp add: sample_defs service_defs)

section \<open>Who is alerted\<close>

text \<open>
  The loop body of services.py alerts exactly when the percentage is above 0 and below
  the threshold; the loop body of app.py alerts exactly when there is a record in the
  window and the percentage is below 75. A percentage equal to the threshold is not
  alerted. The percentage is the exact one: where the floating-point value of the code
  falls below a threshold that the exact value meets, the code alerts.
\<close>

lemma service_alert_iff:
  "AttendanceService_alert_student cfg smtp course sd ed student w \<noteq> w
   \<longleftrightarrow> (let pct = get_attendance_percentage (attendance w) student (Course_id course)
                      (Some sd) (Some ed)
        in 0 < pct \<and> pct < ATTENDANCE_THRESHOLD cfg)"
proof -
  have "\<And>x. w\<lparr> outbox := outbox w @ [x] \<rparr> \<noteq> w"
  proof
    fix x assume "w\<lparr> outbox := outbox w @ [x] \<rparr> = w"
    then have "outbox (w\<lparr> outbox := outbox w @ [x] \<rparr>) = outbox w" by simp
    then show False by simp
  qed
  moreover have "\<And>x n. w\<lparr> outbox := outbox w @ [x], notifications := notifications w @ [n] \<rparr> \<noteq> w"
  proof
    fix x n assume "w\<lparr> outbox := outbox w @ [x], notifications := notifications w @ [n] \<rparr> = w"
    then have "outbox (w\<lparr> outbox := outbox w @ [x], notifications := notifications w @ [n] \<rparr>) = outbox w" by simp
    then show False by simp
  qed
  ultimately show ?thesis
    by (auto simp add: AttendanceService_alert_student_def Let_def)
qed

lemma app_alert_iff:
  "app_alert_student smtp course student w \<noteq> w
   \<longleftrightarrow> (let (total, present) = stats_query (attendance w) (User_id student) (Course_id course)
        in 0 < total \<and> (of_nat present / of_nat total) * (100 :: rat) < 75)"
proof -
  have "\<And>x. w\<lparr> outbox := outbox w @ [x] \<rparr> \<noteq> w"
  proof
    fix x assume "w\<lparr> outbox := outbox w @ [x] \<rparr> = w"
    then have "outbox (w\<lparr> outbox := outbox w @ [x] \<rparr>) = outbox w" by simp
    then show False by simp
  qed
  then show ?thesis
    by (auto simp add: app_alert_student_def send_attendance_alert_def Let_def split: prod.splits)
qed

lemma threshold_is_strict:
  "get_attendance_percentage (attendance w) student (Course_id course) (Some sd) (Some ed)
     = ATTENDANCE_THRESHOLD cfg
   \<Longrightarrow> AttendanceService_alert_student cfg smtp course sd ed student w = w"
  by (simp add: AttendanceService_alert_student_def)



text \<open>
  C4 at a student with one record in the window, Absent: the percentage is 0 out of a
  total of 1. The pass of services.py (\<^verbatim>\<open>percentage > 0\<close>) makes no call and writes no
  notification for the student; the pass of app.py (\<^verbatim>\<open>total > 0\<close>) alerts the student.
\<close>

theorem all_absent_student_not_alerted_by_service:
  "get_attendance_percentage [row 1 739460 ''Absent''] student1 1 (Some 739456) (Some 739471) = 0
   \<and> total_classes [row 1 739460 ''Absent''] student1 1 (Some 739456) (Some 739471) = 1
   \<and> outbox (snd (AttendanceService_check_and_send_alerts config75 no_faults smtp_up 739471 1
                    None None (world_of [row 1 739460 ''Absent'']))) = []
   \<and> notifications (snd (AttendanceService_check_and_send_alerts config75 no_faults smtp_up
                    739471 1 None None (world_of [row 1 739460 ''Absent'']))) = []
   \<and> outbox (check_and_send_alerts smtp_up 1 (world_of [row 1 739460 ''Absent'']))
       = [(\<lparr> student_email = ''s1@example.com'', student_name = ''S1'',
             course_name = ''C1'', percentage = 0 \<rparr>, True)]"
  by (simp add: sample_defs service_defs app_defs)

section \<open>Recording attendance: upsert and reconciliation\<close>

text \<open>
  \<^verbatim>\<open>take_attendance\<close> of app.py, for form lists that write every id in one way
  only. After a submission every student of the roster has
  exactly one row for the course and date, Present when the student is in the list of
  present students and Absent otherwise, whatever rows there were before; the rows with
  other keys are as they were. Two submissions for one key leave one row, with the
  status of the second.
\<close>

lemma insert_or_replace_key:
  "filter (\<lambda>a. unique_attendance a = k) (insert_or_replace r tbl)
     = (if unique_attendance r = k then [r] else filter (\<lambda>a. unique_attendance a = k) tbl)"
  by (auto simp add: insert_or_replace_def filter_empty_conv intro: filter_cong)

lemma insert_or_replace_frame:
  "unique_attendance r \<in> K \<Longrightarrow>
   filter (\<lambda>a. unique_attendance a \<notin> K) (insert_or_replace r tbl)
     = filter (\<lambda>a. unique_attendance a \<notin> K) tbl"
  by (auto simp add: insert_or_replace_def intro: filter_cong)

lemma unique_take_attendance_row:
  "unique_attendance (take_attendance_row c d P s) = (s, c, d)"
  by (simp add: unique_attendance_def take_attendance_row_def)

lemma take_fold_key:
  "filter (\<lambda>a. unique_attendance a = (s, c, d))
     (fold (\<lambda>sid tbl. insert_or_replace (take_attendance_row c d P sid) tbl) R tbl)
   = (if s \<in> set R then [take_attendance_row c d P s]
      else filter (\<lambda>a. unique_attendance a = (s, c, d)) tbl)"
  by (induction R arbitrary: tbl)
     (auto simp add: insert_or_replace_key unique_take_attendance_row)

lemma take_fold_frame:
  "(\<lambda>s. (s, c, d)) ` set R \<subseteq> K \<Longrightarrow>
   filter (\<lambda>a. unique_attendance a \<notin> K)
     (fold (\<lambda>sid tbl. insert_or_replace (take_attendance_row c d P sid) tbl) R tbl)
   = filter (\<lambda>a. unique_attendance a \<notin> K) tbl"
  by (induction R arbitrary: tbl)
     (auto simp add: insert_or_replace_frame unique_take_attendance_row)

lemma take_attendance_reconciles:
  "(s \<in> set R \<longrightarrow>
      filter (\<lambda>a. unique_attendance a = (s, c, d)) (attendance (take_attendance smtp c d R P w))
        = [\<lparr> Attendance_student_user_id = s, Attendance_course_id = c, Attendance_date = d,
             Attendance_status = (if s \<in> set P then ''Present'' else ''Absent'') \<rparr>])
   \<and> filter (\<lambda>a. unique_attendance a \<notin> (\<lambda>s. (s, c, d)) ` set R)
        (attendance (take_attendance smtp c d R P w))
      = filter (\<lambda>a. unique_attendance a \<notin> (\<lambda>s. (s, c, d)) ` set R) (attendance w)"
proof -
  have "take_attendance_row c d P s
          = \<lparr> Attendance_student_user_id = s, Attendance_course_id = c, Attendance_date = d,
             Attendance_status = (if s \<in> set P then ''Present'' else ''Absent'') \<rparr>"
    by (simp add: take_attendance_row_def)
  then show ?thesis
    by (simp add: take_attendance_def app_pass_attendance take_fold_key take_fold_frame)
qed

lemma take_attendance_upserts:
  "filter (\<lambda>a. unique_attendance a = (s, c, d))
     (attendance (take_attendance smtp2 c d [s] P2 (take_attendance smtp1 c d [s] P1 w)))
   = [\<lparr> Attendance_student_user_id = s, Attendance_course_id = c, Attendance_date = d,
        Attendance_status = (if s \<in> set P2 then ''Present'' else ''Absent'') \<rparr>]"
  using take_attendance_reconciles [of s "[s]" c d smtp2 P2 "take_attendance smtp1 c d [s] P1 w"]
  by simp

text \<open>
  C2 in routes/faculty.py. The first submission for (student 1, course 1, 2025-07-28)
  records Present. The second, with the student not marked present, adds a second
  \<^verbatim>\<open>Attendance\<close> object with the same key; the commit raises on the unique constraint,
  the handler rolls back and flashes the error, and the row keeps the status Present.
  In app.py the same two submissions leave one row with the status Absent.
\<close>

theorem faculty_second_write_is_rejected:
  "faculty_take_attendance config75 no_faults smtp_up 739471 (Some 1) (Some 739460)
       [Some 1] [Some 1] (world_of [])
     = (''Attendance recorded successfully!'',
        (world_of [row 1 739460 ''Present''])\<lparr> log_lines := [''Attendance alerts processed''] \<rparr>)
   \<and> faculty_take_attendance config75 no_faults smtp_up 739471 (Some 1) (Some 739460)
       [Some 1] [] ((world_of [row 1 739460 ''Present''])\<lparr> log_lines := [''Attendance alerts processed''] \<rparr>)
     = (''An error occurred while recording attendance.'',
        (world_of [row 1 739460 ''Present''])\<lparr> log_lines := [''Attendance alerts processed''] \<rparr>)
   \<and> attendance (take_attendance smtp_up 1 739460 [1] []
        (take_attendance smtp_up 1 739460 [1] [1] (world_of [])))
     = [row 1 739460 ''Absent'']"
  by (simp add: sample_defs service_defs app_defs faculty_take_attendance_def
        faculty_take_attendance_try_def unique_attendance_def take_attendance_def
        insert_or_replace_def take_attendance_row_def)

text \<open>
  C7 in routes/faculty.py. The roster is students 1, 2, 3 with student 1 marked present,
  and student 2 has a row for the course and date already. The commit raises on that
  row, everything is rolled back: students 1 and 3 get no row and student 2 stays
  Present. In app.py the same submission leaves 1 Present, 2 Absent, 3 Absent.
\<close>

theorem faculty_batch_with_prior_record_is_rejected:
  "faculty_take_attendance config75 no_faults smtp_up 739471 (Some 1) (Some 739460)
       [Some 1, Some 2, Some 3] [Some 1] (world_of [row 2 739460 ''Present''])
     = (''An error occurred while recording attendance.'', world_of [row 2 739460 ''Present''])
   \<and> attendance (take_attendance smtp_up 1 739460 [1, 2, 3] [1]
        (world_of [row 2 739460 ''Present'']))
     = [row 1 739460 ''Present'', row 2 739460 ''Absent'', row 3 739460 ''Absent'']"
  by (simp add: sample_defs service_defs app_defs faculty_take_attendance_def
        faculty_take_attendance_try_def unique_attendance_def take_attendance_def
        insert_or_replace_def take_attendance_row_def)

section \<open>Modifying attendance: only existing rows, only the submitted keys\<close>

text \<open>
  The relation between the table before and after: row by row the key is the same, and
  a row whose key is outside the set \<open>K\<close> is the same row.
\<close>

lemma frame_refl:
  "list_all2 (\<lambda>a b. unique_attendance b = unique_attendance a
                    \<and> (unique_attendance a \<notin> K \<longrightarrow> b = a)) tbl tbl"
  by (simp add: list_all2_same)

lemma frame_trans:
  assumes "list_all2 (\<lambda>a b. unique_attendance b = unique_attendance a
                    \<and> (unique_attendance a \<notin> K1 \<longrightarrow> b = a)) xs ys"
    and "list_all2 (\<lambda>a b. unique_attendance b = unique_attendance a
                    \<and> (unique_attendance a \<notin> K2 \<longrightarrow> b = a)) ys zs"
    and "K1 \<union> K2 \<subseteq> K"
  shows "list_all2 (\<lambda>a b. unique_attendance b = unique_attendance a
                    \<and> (unique_attendance a \<notin> K \<longrightarrow> b = a)) xs zs"
  by (rule list_all2_trans [OF _ assms(1) assms(2)]) (use assms(3) in auto)

lemma frame_consequences:
  assumes "list_all2 (\<lambda>a b. unique_attendance b = unique_attendance a
                    \<and> (unique_attendance a \<notin> K \<longrightarrow> b = a)) xs ys"
  shows "map unique_attendance ys = map unique_attendance xs
         \<and> (\<forall>i < length xs. unique_attendance (xs ! i) \<notin> K \<longrightarrow> ys ! i = xs ! i)"
  using assms by (auto simp add: list_all2_conv_all_nth intro: nth_equalityI)

lemma sql_update_status_frame:
  "sql_update_status st k tbl = Inr tbl' \<Longrightarrow>
   list_all2 (\<lambda>a b. unique_attendance b = unique_attendance a
                 \<and> (unique_attendance a \<notin> {k} \<longrightarrow> b = a)) tbl tbl'"
  by (auto simp add: sql_update_status_def list_all2_map2 list_all2_same unique_attendance_def
        split: if_splits)

lemma set_first_status_frame:
  "list_all2 (\<lambda>a b. unique_attendance b = unique_attendance a
                 \<and> (unique_attendance a \<notin> {k} \<longrightarrow> b = a)) tbl (set_first_status k st tbl)"
  by (induction tbl) (auto simp add: list_all2_same unique_attendance_def)

lemma modify_loop_frame:
  "modify_loop c d sids sts tbl = Inr tbl' \<Longrightarrow>
   list_all2 (\<lambda>a b. unique_attendance b = unique_attendance a
                 \<and> (unique_attendance a \<notin> (\<lambda>s. (s, c, d)) ` set sids \<longrightarrow> b = a)) tbl tbl'"
proof (induction c d sids sts tbl rule: modify_loop.induct)
  case (1 c d sts tbl)
  then show ?case by (simp add: list_all2_same)
next
  case (2 c d sid sids tbl)
  then show ?case by simp
next
  case (3 c d sid sids st sts tbl)
  from "3.prems" obtain mid where
    u: "sql_update_status st (sid, c, d) tbl = Inr mid"
    and l: "modify_loop c d sids sts mid = Inr tbl'"
    by (auto split: sum.splits)
  show ?case
    by (rule frame_trans [OF sql_update_status_frame [OF u] "3.IH" [OF u l]]) auto
qed

lemma faculty_modify_loop_frame:
  "faculty_modify_loop cid dt sids sts tbl = Inr tbl' \<Longrightarrow>
   list_all2 (\<lambda>a b. unique_attendance b = unique_attendance a
                 \<and> (unique_attendance a \<notin> {(s, c, d). Some s \<in> set sids \<and> cid = Some c \<and> dt = Some d}
                      \<longrightarrow> b = a)) tbl tbl'"
proof (induction sids arbitrary: sts tbl)
  case Nil
  then show ?case by (simp add: list_all2_same)
next
  case (Cons sid sids)
  from Cons.prems obtain s c d where
    v: "sid = Some s" "cid = Some c" "dt = Some d"
    by (auto split: option.splits)
  let ?K = "{(s, c, d). Some s \<in> set (sid # sids) \<and> cid = Some c \<and> dt = Some d}"
  let ?K' = "{(s, c, d). Some s \<in> set sids \<and> cid = Some c \<and> dt = Some d}"
  show ?case
  proof (cases "(s, c, d) \<in> set (map unique_attendance tbl)")
    case True
    with Cons.prems v obtain st rest where
      sts: "sts = st # rest"
      and l: "faculty_modify_loop cid dt sids rest (set_first_status (s, c, d) st tbl) = Inr tbl'"
      by (auto split: list.splits)
    show ?thesis
      by (rule frame_trans [OF set_first_status_frame [of "(s, c, d)" tbl st] Cons.IH [OF l]])
         (use v in auto)
  next
    case False
    with Cons.prems v have l: "faculty_modify_loop cid dt sids (tl sts) tbl = Inr tbl'"
      by auto
    show ?thesis
      by (rule frame_trans [OF frame_refl [of "{}" tbl] Cons.IH [OF l]]) auto
  qed
qed

lemma faculty_modify_attendance_cases:
  "snd (faculty_modify_attendance cfg faults smtp today cid dt sids sts v) = v
   \<or> (\<exists>tbl. faculty_modify_loop cid dt sids sts (attendance v) = Inr tbl
        \<and> attendance (snd (faculty_modify_attendance cfg faults smtp today cid dt sids sts v)) = tbl)"
  by (auto simp add: faculty_modify_attendance_def faculty_modify_attendance_try_def
        service_pass_attendance split: sum.splits option.splits)

text \<open>
  C10. \<^verbatim>\<open>modify_attendance\<close>, in app.py and in routes/faculty.py, leaves the keys of the
  attendance table as they were, row by row: no row is created (none for a submitted
  student without a row either), none is deleted. A row whose key is not one of the
  submitted (student, course, date) keys is unchanged. When the request fails, nothing
  is written.
\<close>

theorem modify_attendance_frame:
  "(modify_attendance smtp c d student_ids statuses w = Inr w' \<longrightarrow>
      map unique_attendance (attendance w') = map unique_attendance (attendance w)
      \<and> (\<forall>i < length (attendance w).
            unique_attendance (attendance w ! i) \<notin> (\<lambda>s. (s, c, d)) ` set student_ids
            \<longrightarrow> attendance w' ! i = attendance w ! i))
   \<and> (let v' = snd (faculty_modify_attendance cfg faults smtp today cid dt fstudent_ids statuses v)
      in map unique_attendance (attendance v') = map unique_attendance (attendance v)
         \<and> (\<forall>i < length (attendance v).
               unique_attendance (attendance v ! i)
                 \<notin> {(s, c, d). Some s \<in> set fstudent_ids \<and> cid = Some c \<and> dt = Some d}
               \<longrightarrow> attendance v' ! i = attendance v ! i))"
proof -
  have app: "modify_attendance smtp c d student_ids statuses w = Inr w' \<longrightarrow>
      map unique_attendance (attendance w') = map unique_attendance (attendance w)
      \<and> (\<forall>i < length (attendance w).
            unique_attendance (attendance w ! i) \<notin> (\<lambda>s. (s, c, d)) ` set student_ids
            \<longrightarrow> attendance w' ! i = attendance w ! i)"
  proof
    assume m: "modify_attendance smtp c d student_ids statuses w = Inr w'"
    then obtain tbl where
      l: "modify_loop c d student_ids statuses (attendance w) = Inr tbl"
      and a: "attendance w' = tbl"
      by (auto simp add: modify_attendance_def app_pass_attendance split: sum.splits)
    from frame_consequences [OF modify_loop_frame [OF l]] a
    show "map unique_attendance (attendance w') = map unique_attendance (attendance w)
      \<and> (\<forall>i < length (attendance w).
            unique_attendance (attendance w ! i) \<notin> (\<lambda>s. (s, c, d)) ` set student_ids
            \<longrightarrow> attendance w' ! i = attendance w ! i)"
      by simp
  qed
  let ?v' = "snd (faculty_modify_attendance cfg faults smtp today cid dt fstudent_ids statuses v)"
  have fac: "map unique_attendance (attendance ?v') = map unique_attendance (attendance v)
         \<and> (\<forall>i < length (attendance v).
               unique_attendance (attendance v ! i)
                 \<notin> {(s, c, d). Some s \<in> set fstudent_ids \<and> cid = Some c \<and> dt = Some d}
               \<longrightarrow> attendance ?v' ! i = attendance v ! i)"
    using faculty_modify_attendance_cases [of cfg faults smtp today cid dt fstudent_ids statuses v]
  proof
    assume "?v' = v"
    then show ?thesis by simp
  next
    assume "\<exists>tbl. faculty_modify_loop cid dt fstudent_ids statuses (attendance v) = Inr tbl
        \<and> attendance ?v' = tbl"
    then obtain tbl where
      l: "faculty_modify_loop cid dt fstudent_ids statuses (attendance v) = Inr tbl"
      and a: "attendance ?v' = tbl"
      by blast
    from frame_consequences [OF faculty_modify_loop_frame [OF l]] a
    show ?thesis by simp
  qed
  from app fac show ?thesis by (simp add: Let_def)
qed

theorem modify_attendance_frame_witness:
  "modify_attendance smtp_up 1 739460 [1, 2] [''Absent'', ''Present'']
       (world_of [row 1 739460 ''Present'', row 3 739460 ''Present''])
     = Inr ((world_of [row 1 739460 ''Absent'', row 3 739460 ''Present''])
              \<lparr> outbox := [(\<lparr> student_email = ''s1@example.com'', student_name = ''S1'',
                              course_name = ''C1'', percentage = 0 \<rparr>, True)] \<rparr>)
   \<and> attendance (snd (faculty_modify_attendance config75 no_faults smtp_up 739471 (Some 1)
         (Some 739460) [Some 1, Some 2] [''Absent'', ''Present'']
         (world_of [row 1 739460 ''Present'', row 3 739460 ''Present''])))
     = [row 1 739460 ''Absent'', row 3 739460 ''Present'']"
proof -
  have a: "modify_attendance smtp_up 1 739460 [1, 2] [''Absent'', ''Present'']
       (world_of [row 1 739460 ''Present'', row 3 739460 ''Present''])
     = Inr ((world_of [row 1 739460 ''Absent'', row 3 739460 ''Present''])
              \<lparr> outbox := [(\<lparr> student_email = ''s1@example.com'', student_name = ''S1'',
                              course_name = ''C1'', percentage = 0 \<rparr>, True)] \<rparr>)"
    by (simp add: sample_defs app_defs modify_attendance_def sql_update_status_def
          unique_attendance_def)
  have b: "attendance (snd (faculty_modify_attendance config75 no_faults smtp_up 739471 (Some 1)
         (Some 739460) [Some 1, Some 2] [''Absent'', ''Present'']
         (world_of [row 1 739460 ''Present'', row 3 739460 ''Present''])))
     = [row 1 739460 ''Absent'', row 3 739460 ''Present'']"
    by (simp add: sample_defs service_defs faculty_modify_attendance_def
          faculty_modify_attendance_try_def unique_attendance_def)
  from modify_attendance_frame [of smtp_up 1 739460 "[1, 2]" "[''Absent'', ''Present'']"
      "world_of [row 1 739460 ''Present'', row 3 739460 ''Present'']"
      "(world_of [row 1 739460 ''Absent'', row 3 739460 ''Present''])
              \<lparr> outbox := [(\<lparr> student_email = ''s1@example.com'', student_name = ''S1'',
                              course_name = ''C1'', percentage = 0 \<rparr>, True)] \<rparr>"
      config75 no_faults 739471 "Some 1" "Some 739460" "[Some 1, Some 2]"
      "world_of [row 1 739460 ''Present'', row 3 739460 ''Present'']"] a b
  show ?thesis by blast
qed

end
